theory Spec2Isabelle
  imports Main "HOL-Library.Sublist"
begin

section \<open>JavaScript values\<close>

text \<open>
  The hook \<^verbatim>\<open>useOne\<close> (packages/core/src/hooks/data/useOne.ts) moves JavaScript values
  between its collaborators without looking inside them. They are modelled by one datatype.
  An object is a map from property names to values; \<^verbatim>\<open>{...a, ...b}\<close> is
  \<open>a ++ b\<close> and \<^verbatim>\<open>{...a, k: v}\<close> is \<open>a(k \<mapsto> v)\<close>. Numbers are the integers,
  which is what record keys and HTTP status codes are; fractions, \<^verbatim>\<open>NaN\<close> and the
  infinities are outside the model. Host objects that are only passed along (an abort
  signal, a page parameter) are references \<open>JRef\<close>.
\<close>

datatype jsval =
    JUndefined
  | JNull
  | JBool bool
  | JNum int
  | JStr string
  | JArr "jsval list"
  | JObj "string \<Rightarrow> jsval option"
  | JRef nat

type_synonym jsobj = "string \<Rightarrow> jsval option"

text \<open>\<^verbatim>\<open>BaseKey = string | number\<close>.\<close>

datatype BaseKey = KeyStr string | KeyNum int

fun js_of_key :: "BaseKey \<Rightarrow> jsval" where
  "js_of_key (KeyStr s) = JStr s"
| "js_of_key (KeyNum n) = JNum n"

text \<open>An optional key as a value: \<^verbatim>\<open>undefined\<close> when absent.\<close>

definition js_of_id :: "BaseKey option \<Rightarrow> jsval" where
  "js_of_id i = (case i of None \<Rightarrow> JUndefined | Some k \<Rightarrow> js_of_key k)"

text \<open>
  Truthiness of an optional key, as \<^verbatim>\<open>id ? [id] : []\<close> tests it: \<^verbatim>\<open>undefined\<close>, the
  empty string and \<^verbatim>\<open>0\<close> are falsy.
\<close>

definition truthy_id :: "BaseKey option \<Rightarrow> bool" where
  "truthy_id i = (case i of None \<Rightarrow> False | Some (KeyStr s) \<Rightarrow> s \<noteq> [] | Some (KeyNum n) \<Rightarrow> n \<noteq> 0)"

subsection \<open>Template literals\<close>

text \<open>
  Decimal rendering of an integer, as a template literal renders an integral number
  (of magnitude below \<open>10\<^sup>2\<^sup>1\<close>; larger numbers are outside the model).
\<close>

definition digit_char :: "nat \<Rightarrow> char" where
  "digit_char n = ''0123456789'' ! (n mod 10)"

fun js_string_of_nat :: "nat \<Rightarrow> string" where
  "js_string_of_nat n =
     (if n < 10 then [digit_char n] else js_string_of_nat (n div 10) @ [digit_char n])"

declare js_string_of_nat.simps [simp del]

definition js_string_of_int :: "int \<Rightarrow> string" where
  "js_string_of_int i =
     (if i < 0 then CHR ''-'' # js_string_of_nat (nat (- i)) else js_string_of_nat (nat i))"

text \<open>\<^verbatim>\<open>`${id}`\<close> for an optional key.\<close>

definition template_id :: "BaseKey option \<Rightarrow> string" where
  "template_id i =
     (case i of
        None \<Rightarrow> ''undefined''
      | Some (KeyStr s) \<Rightarrow> s
      | Some (KeyNum n) \<Rightarrow> js_string_of_int n)"

section \<open>Data of the hook\<close>

text \<open>
  A resource item of the registry. Only \<^verbatim>\<open>name\<close> is read by the hook itself; the
  resource-level metadata \<^verbatim>\<open>meta\<close> is what the metadata merge reads.
\<close>

record IResourceItem =
  name :: string
  resource_meta :: "jsobj option"

text \<open>What \<^verbatim>\<open>useResource(resourceFromProp)\<close> returns.\<close>

record resolved =
  resources :: "IResourceItem list"
  resource :: "IResourceItem option"
  "identifier" :: string

text \<open>\<^verbatim>\<open>HttpError\<close>: the two fields the hook reads.\<close>

record HttpError =
  err_message :: string
  statusCode :: int

text \<open>
  A notification descriptor, with the four fields of the object literal the error path
  builds.
\<close>

record OpenNotificationParams =
  key :: string
  message :: string
  description :: string
  notification_type :: string

text \<open>A function supplied by the caller and only ever called, never inspected.\<close>

datatype callback = Callback nat

text \<open>
  \<^verbatim>\<open>successNotification\<close> and \<^verbatim>\<open>errorNotification\<close>: a static descriptor, or a function of
  (outcome, values, resource identifier) that yields a descriptor or none. The property
  itself is optional.
\<close>

datatype 'a notification_prop =
    Static OpenNotificationParams
  | Computed "'a \<Rightarrow> jsobj \<Rightarrow> string \<Rightarrow> OpenNotificationParams option"

text \<open>The caller's react-query options: the three the hook reads, and the rest.\<close>

record UseQueryOptions =
  enabled :: "bool option"
  onSuccess :: "callback option"
  onError :: "callback option"
  other_options :: jsobj

record overtime_options =
  interval :: "int option"
  onInterval :: "callback option"

record UseOneProps =
  resourceFromProp :: "string option"
  id_prop :: "BaseKey option"
  queryOptions :: "UseQueryOptions option"
  successNotification :: "jsval notification_prop option"
  errorNotification :: "HttpError notification_prop option"
  meta :: "jsobj option"
  metaData :: "jsobj option"
  liveMode :: "string option"
  onLiveEvent :: "callback option"
  liveParams :: "jsobj option"
  dataProviderName :: "string option"
  overtimeOptions :: "overtime_options option"

text \<open>\<^verbatim>\<open>queryOptions?.enabled\<close>, \<^verbatim>\<open>queryOptions?.onSuccess\<close>, \<^verbatim>\<open>queryOptions?.onError\<close>.\<close>

definition queryOptions_enabled :: "UseOneProps \<Rightarrow> bool option" where
  "queryOptions_enabled props =
     (case queryOptions props of None \<Rightarrow> None | Some q \<Rightarrow> enabled q)"

definition queryOptions_onSuccess :: "UseOneProps \<Rightarrow> callback option" where
  "queryOptions_onSuccess props =
     (case queryOptions props of None \<Rightarrow> None | Some q \<Rightarrow> onSuccess q)"

definition queryOptions_onError :: "UseOneProps \<Rightarrow> callback option" where
  "queryOptions_onError props =
     (case queryOptions props of None \<Rightarrow> None | Some q \<Rightarrow> onError q)"

section \<open>Calls to the collaborators\<close>

text \<open>The argument of the data provider's \<^verbatim>\<open>getOne\<close>.\<close>

record getOne_params =
  getOne_resource :: string
  getOne_id :: "BaseKey option"
  getOne_meta :: jsobj
  getOne_metaData :: jsobj

text \<open>
  The effects of the three callbacks the hook hands to the cache engine are calls to
  collaborators. A callback's run is the list of those calls, in the order made. The
  collaborators and the caller's functions are taken to return normally.
\<close>

datatype event =
    is_GetOne: GetOne string getOne_params
  | is_CheckError: CheckError HttpError
  | is_CallerOnSuccess: CallerOnSuccess callback jsval
  | is_CallerOnError: CallerOnError callback HttpError
  | is_SuccessNotificationCall: SuccessNotificationCall jsval jsobj string
  | is_ErrorNotificationCall: ErrorNotificationCall HttpError jsobj string
  | is_HandleNotification:
      HandleNotification "OpenNotificationParams option" "OpenNotificationParams option"

text \<open>The context the cache engine passes to the query function.\<close>

record query_context =
  ctx_queryKey :: jsval
  ctx_pageParam :: jsval
  ctx_signal :: jsval

text \<open>What the hook passes to \<^verbatim>\<open>useQuery\<close>: key, query function and options.\<close>

record query_config =
  qc_queryKey :: jsval
  qc_queryFn :: "query_context \<Rightarrow> event list"
  qc_other_options :: jsobj
  qc_enabled :: bool
  qc_onSuccess :: "jsval \<Rightarrow> event list"
  qc_onError :: "HttpError \<Rightarrow> event list"

text \<open>
  What \<^verbatim>\<open>useQuery\<close> returns: the outcome (\<^verbatim>\<open>data\<close>, \<^verbatim>\<open>error\<close>, \<^verbatim>\<open>status\<close>), the
  \<^verbatim>\<open>isFetching\<close> flag the hook reads, and the remaining fields of the query result, none of
  which is named \<^verbatim>\<open>overtime\<close>.
\<close>

record QueryObserverResult =
  data :: "jsval option"
  error :: "HttpError option"
  status :: string
  isFetching :: bool
  other_fields :: jsobj

record UseLoadingOvertimeReturnType =
  elapsedTime :: "int option"

text \<open>
  The hook's result type, \<^verbatim>\<open>QueryObserverResult & UseLoadingOvertimeReturnType\<close>: the query
  result extended with the field \<^verbatim>\<open>overtime\<close>.
\<close>

record UseOneResult = QueryObserverResult +
  overtime :: UseLoadingOvertimeReturnType

record overtime_props =
  isLoading :: bool
  ov_interval :: "int option"
  ov_onInterval :: "callback option"

text \<open>The argument of \<^verbatim>\<open>useResourceSubscription\<close>.\<close>

record subscription_props =
  sub_resource :: string
  sub_types :: "string list"
  sub_channel :: string
  sub_params :: jsobj
  sub_enabled :: bool
  sub_liveMode :: "string option"
  sub_onLiveEvent :: "callback option"

record auth_provider =
  isLegacy :: "bool option"

text \<open>
  The hooks and helpers \<^verbatim>\<open>useOne\<close> imports. Their code is in other files; the hook is
  modelled over any implementation of them.
\<close>

record env =
  useResource :: "string option \<Rightarrow> resolved"
  translate :: "string \<Rightarrow> jsobj \<Rightarrow> string \<Rightarrow> string"
  useActiveAuthProvider :: "auth_provider option"
  useMeta :: "IResourceItem option \<Rightarrow> jsobj option \<Rightarrow> jsobj"
  pickNotDeprecated :: "jsobj option \<Rightarrow> jsobj option \<Rightarrow> jsobj option"
  pickDataProvider :: "string \<Rightarrow> string option \<Rightarrow> IResourceItem list \<Rightarrow> string"
  queryKeys :: "string \<Rightarrow> string \<Rightarrow> jsobj option \<Rightarrow> BaseKey option \<Rightarrow> jsval"
  useQuery :: "query_config \<Rightarrow> QueryObserverResult"
  useLoadingOvertime :: "overtime_props \<Rightarrow> UseLoadingOvertimeReturnType"

section \<open>The hook\<close>

text \<open>
  \<^verbatim>\<open>const preferredMeta = pickNotDeprecated(meta, metaData)\<close> and
  \<^verbatim>\<open>const combinedMeta = getMeta({ resource, meta: preferredMeta })\<close>, where \<^verbatim>\<open>getMeta\<close> is
  what \<^verbatim>\<open>useMeta()\<close> returned.
\<close>

definition preferredMeta :: "env \<Rightarrow> UseOneProps \<Rightarrow> jsobj option" where
  "preferredMeta env props = pickNotDeprecated env (meta props) (metaData props)"

definition combinedMeta :: "env \<Rightarrow> UseOneProps \<Rightarrow> jsobj" where
  "combinedMeta env props =
     useMeta env (resource (useResource env (resourceFromProp props))) (preferredMeta env props)"

text \<open>
  \<^verbatim>\<open>const pickedDataProvider = pickDataProvider(identifier, dataProviderName, resources)\<close>.
\<close>

definition pickedDataProvider :: "env \<Rightarrow> UseOneProps \<Rightarrow> string" where
  "pickedDataProvider env props =
     (let r = useResource env (resourceFromProp props)
      in pickDataProvider env (identifier r) (dataProviderName props) (resources r))"

text \<open>
  The query function (lines 163-183). \<^verbatim>\<open>getOne\<close> is the method of the data provider
  named \<open>provider\<close>; \<^verbatim>\<open>resource?.name ?? ""\<close> falls back to the empty name;
  \<^verbatim>\<open>id!\<close> is erased at run time, so an undefined id is passed as it is. The object
  literal \<^verbatim>\<open>{ queryKey, pageParam, signal }\<close> is written twice in the source, once under
  \<^verbatim>\<open>meta\<close> and once under \<^verbatim>\<open>metaData\<close>.
\<close>

definition queryContext :: "query_context \<Rightarrow> jsval" where
  "queryContext ctx =
     JObj [''queryKey'' \<mapsto> ctx_queryKey ctx,
           ''pageParam'' \<mapsto> ctx_pageParam ctx,
           ''signal'' \<mapsto> ctx_signal ctx]"

definition useOne_queryFn ::
  "string \<Rightarrow> IResourceItem option \<Rightarrow> BaseKey option \<Rightarrow> jsobj \<Rightarrow> query_context \<Rightarrow> event list"
where
  "useOne_queryFn provider res rid cm ctx =
     [GetOne provider
        \<lparr> getOne_resource = (case res of None \<Rightarrow> '''' | Some r \<Rightarrow> name r),
          getOne_id = rid,
          getOne_meta = cm(''queryContext'' \<mapsto> queryContext ctx),
          getOne_metaData = cm(''queryContext'' \<mapsto> queryContext ctx) \<rparr>]"

text \<open>\<^verbatim>\<open>{ id, ...combinedMeta }\<close>: the second argument of a notification function.\<close>

definition notification_values :: "BaseKey option \<Rightarrow> jsobj \<Rightarrow> jsobj" where
  "notification_values rid cm = [''id'' \<mapsto> js_of_id rid] ++ cm"

text \<open>
  \<^verbatim>\<open>typeof n === "function" ? n(outcome, { id, ...combinedMeta }, identifier) : n\<close>: the
  call made, if any, and the descriptor obtained. \<open>call\<close> is the event that records
  the call of the caller's function.
\<close>

definition notificationConfig ::
  "('a \<Rightarrow> jsobj \<Rightarrow> string \<Rightarrow> event) \<Rightarrow> 'a notification_prop option \<Rightarrow>
   'a \<Rightarrow> jsobj \<Rightarrow> string \<Rightarrow> event list \<times> OpenNotificationParams option"
where
  "notificationConfig call n outcome vals ident =
     (case n of
        Some (Computed f) \<Rightarrow> ([call outcome vals ident], f outcome vals ident)
      | Some (Static d) \<Rightarrow> ([], Some d)
      | None \<Rightarrow> ([], None))"

text \<open>The \<^verbatim>\<open>onSuccess\<close> option (lines 190-206).\<close>

definition useOne_onSuccess :: "UseOneProps \<Rightarrow> jsobj \<Rightarrow> string \<Rightarrow> jsval \<Rightarrow> event list" where
  "useOne_onSuccess props cm ident d =
     (let called = (case queryOptions_onSuccess props of
                      None \<Rightarrow> []
                    | Some cb \<Rightarrow> [CallerOnSuccess cb d]);
          (computed, config) =
             notificationConfig SuccessNotificationCall (successNotification props) d
               (notification_values (id_prop props) cm) ident
      in called @ computed @ [HandleNotification config None])"

text \<open>
  The descriptor the error path passes as the second argument of
  \<^verbatim>\<open>handleNotification\<close> (lines 223-232).
\<close>

definition error_fallback ::
  "(string \<Rightarrow> jsobj \<Rightarrow> string \<Rightarrow> string) \<Rightarrow> BaseKey option \<Rightarrow> string \<Rightarrow> HttpError \<Rightarrow>
   OpenNotificationParams"
where
  "error_fallback tr rid ident err =
     \<lparr> key = template_id rid @ ''-'' @ ident @ ''-getOne-notification'',
       message =
         tr ''notifications.error''
            [''statusCode'' \<mapsto> JNum (statusCode err)]
            (''Error (status code: '' @ js_string_of_int (statusCode err) @ '')''),
       description = err_message err,
       notification_type = ''error'' \<rparr>"

text \<open>The \<^verbatim>\<open>onError\<close> option (lines 207-233).\<close>

definition useOne_onError ::
  "(string \<Rightarrow> jsobj \<Rightarrow> string \<Rightarrow> string) \<Rightarrow> UseOneProps \<Rightarrow> jsobj \<Rightarrow> string \<Rightarrow> HttpError \<Rightarrow>
   event list"
where
  "useOne_onError tr props cm ident err =
     (let checked = [CheckError err];
          called = (case queryOptions_onError props of
                      None \<Rightarrow> []
                    | Some cb \<Rightarrow> [CallerOnError cb err]);
          (computed, config) =
             notificationConfig ErrorNotificationCall (errorNotification props) err
               (notification_values (id_prop props) cm) ident
      in checked @ called @ computed @
         [HandleNotification config (Some (error_fallback tr (id_prop props) ident err))])"

text \<open>The argument of \<^verbatim>\<open>useResourceSubscription\<close> (lines 136-155).\<close>

definition useOne_subscription :: "env \<Rightarrow> UseOneProps \<Rightarrow> subscription_props" where
  "useOne_subscription env props =
     (let r = useResource env (resourceFromProp props);
          rid = id_prop props;
          cm = combinedMeta env props
      in \<lparr> sub_resource = identifier r,
           sub_types = [''*''],
           sub_channel =
             ''resources/'' @ (case resource r of None \<Rightarrow> ''undefined'' | Some i \<Rightarrow> name i),
           sub_params =
             [''ids'' \<mapsto> JArr (if truthy_id rid then [js_of_id rid] else []),
              ''id'' \<mapsto> js_of_id rid,
              ''meta'' \<mapsto> JObj cm,
              ''metaData'' \<mapsto> JObj cm,
              ''subscriptionType'' \<mapsto> JStr ''useOne'']
             ++ (case liveParams props of None \<Rightarrow> Map.empty | Some lp \<Rightarrow> lp),
           sub_enabled =
             (case queryOptions_enabled props of
                Some b \<Rightarrow> b
              | None \<Rightarrow> resource r \<noteq> None \<and> rid \<noteq> None),
           sub_liveMode = liveMode props,
           sub_onLiveEvent = onLiveEvent props \<rparr>)"

text \<open>The arguments of \<^verbatim>\<open>useQuery\<close> (lines 157-235).\<close>

definition useOne_query :: "env \<Rightarrow> UseOneProps \<Rightarrow> query_config" where
  "useOne_query env props =
     (let r = useResource env (resourceFromProp props);
          rid = id_prop props;
          cm = combinedMeta env props;
          provider = pickedDataProvider env props
      in \<lparr> qc_queryKey = queryKeys env (identifier r) provider (preferredMeta env props) rid,
           qc_queryFn = useOne_queryFn provider (resource r) rid cm,
           qc_other_options =
             (case queryOptions props of None \<Rightarrow> Map.empty | Some q \<Rightarrow> other_options q),
           qc_enabled =
             (case queryOptions_enabled props of
                Some b \<Rightarrow> b
              | None \<Rightarrow> rid \<noteq> None),
           qc_onSuccess = useOne_onSuccess props cm (identifier r),
           qc_onError = useOne_onError (translate env) props cm (identifier r) \<rparr>)"

text \<open>The argument of \<^verbatim>\<open>useLoadingOvertime\<close> (lines 237-241).\<close>

definition useOne_overtime :: "env \<Rightarrow> UseOneProps \<Rightarrow> overtime_props" where
  "useOne_overtime env props =
     \<lparr> isLoading = isFetching (useQuery env (useOne_query env props)),
       ov_interval = (case overtimeOptions props of None \<Rightarrow> None | Some ov \<Rightarrow> interval ov),
       ov_onInterval = (case overtimeOptions props of None \<Rightarrow> None | Some ov \<Rightarrow> onInterval ov) \<rparr>"

text \<open>
  One render of the hook: the calls it makes to the hooks that take arguments, and the
  value it returns, \<^verbatim>\<open>{ ...queryResponse, overtime: { elapsedTime } }\<close>.
\<close>

record useOne_render =
  v3LegacyAuthProviderCompatible :: bool
  subscription :: subscription_props
  query :: query_config
  watchdog :: overtime_props
  returned :: UseOneResult

definition useOne :: "env \<Rightarrow> UseOneProps \<Rightarrow> useOne_render" where
  "useOne env props =
     (let queryResponse = useQuery env (useOne_query env props);
          elapsed = elapsedTime (useLoadingOvertime env (useOne_overtime env props))
      in \<lparr> v3LegacyAuthProviderCompatible =
             (case useActiveAuthProvider env of
                None \<Rightarrow> False
              | Some a \<Rightarrow> (case isLegacy a of None \<Rightarrow> False | Some b \<Rightarrow> b)),
           subscription = useOne_subscription env props,
           query = useOne_query env props,
           watchdog = useOne_overtime env props,
           returned =
             QueryObserverResult.extend queryResponse
               (UseOneResult.fields \<lparr> elapsedTime = elapsed \<rparr>) \<rparr>)"

section \<open>Collaborators that are not among the sources\<close>

text \<open>
  Modelled from the spec: \<^verbatim>\<open>pickNotDeprecated\<close> (imported from \<^verbatim>\<open>@definitions\<close>), the
  precedence between \<^verbatim>\<open>meta\<close> and the deprecated \<^verbatim>\<open>metaData\<close>: "explicit wins, legacy is a
  fallback when explicit is absent".
\<close>

definition pickNotDeprecated_spec :: "jsobj option \<Rightarrow> jsobj option \<Rightarrow> jsobj option" where
  "pickNotDeprecated_spec explicit legacy =
     (case explicit of Some m \<Rightarrow> Some m | None \<Rightarrow> legacy)"

text \<open>
  Modelled from the spec: the function \<^verbatim>\<open>getMeta\<close> returned by \<^verbatim>\<open>useMeta\<close> (imported from
  \<^verbatim>\<open>@hooks\<close>): the preferred metadata, with "resource-default" metadata filling "the
  remaining gaps".
\<close>

definition getMeta_spec :: "IResourceItem option \<Rightarrow> jsobj option \<Rightarrow> jsobj" where
  "getMeta_spec res preferred =
     (case res of
        None \<Rightarrow> Map.empty
      | Some r \<Rightarrow> (case resource_meta r of None \<Rightarrow> Map.empty | Some m \<Rightarrow> m))
     ++ (case preferred of None \<Rightarrow> Map.empty | Some m \<Rightarrow> m)"

text \<open>
  Modelled from the spec: the notification dispatcher \<^verbatim>\<open>handleNotification\<close> returned by
  \<^verbatim>\<open>useHandleNotification\<close> (imported from \<^verbatim>\<open>@hooks\<close>), as the notifications it opens: the
  descriptor when there is one; "if the descriptor is absent", the default descriptor
  when the caller of the dispatcher passed one.
\<close>

definition handleNotification_spec ::
  "OpenNotificationParams option \<Rightarrow> OpenNotificationParams option \<Rightarrow> OpenNotificationParams list"
where
  "handleNotification_spec notification fallbackNotification =
     (case notification of
        Some n \<Rightarrow> [n]
      | None \<Rightarrow> (case fallbackNotification of Some f \<Rightarrow> [f] | None \<Rightarrow> []))"

text \<open>The notifications a run opens, through that dispatcher.\<close>

fun notifications_opened :: "event list \<Rightarrow> OpenNotificationParams list" where
  "notifications_opened [] = []"
| "notifications_opened (HandleNotification n f # es) =
     handleNotification_spec n f @ notifications_opened es"
| "notifications_opened (e # es) = notifications_opened es"

text \<open>
  Modelled from the spec: the cache engine behind \<^verbatim>\<open>useQuery\<close> (an external library),
  as far as the \<^verbatim>\<open>enabled\<close> option goes: \<^verbatim>\<open>query(key, fetcher, options)\<close> runs the fetcher, and
  reports \<^verbatim>\<open>isFetching\<close>, only if \<^verbatim>\<open>enabled\<close> is true; a disabled query stays registered
  "in a dormant state". The fetcher receives "the cache key, an abort/cancellation signal,
  and any engine-provided pagination hint".
\<close>

record engine_start =
  engine_isFetching :: bool
  engine_calls :: "event list"

definition cache_engine :: "query_config \<Rightarrow> jsval \<Rightarrow> jsval \<Rightarrow> engine_start" where
  "cache_engine cfg pageParam signal =
     (if qc_enabled cfg
      then \<lparr> engine_isFetching = True,
             engine_calls =
               qc_queryFn cfg
                 \<lparr> ctx_queryKey = qc_queryKey cfg, ctx_pageParam = pageParam,
                   ctx_signal = signal \<rparr> \<rparr>
      else \<lparr> engine_isFetching = False, engine_calls = [] \<rparr>)"

section \<open>Reading a run\<close>

text \<open>The positions of a run at which an event of some kind stands.\<close>

definition positions :: "(event \<Rightarrow> bool) \<Rightarrow> event list \<Rightarrow> nat list" where
  "positions P es = filter (\<lambda>i. P (es ! i)) [0..<length es]"

text \<open>The \<^verbatim>\<open>meta\<close> and \<^verbatim>\<open>metaData\<close> a call passes to the adapter; other events pass none.\<close>

fun getOne_meta_of :: "event \<Rightarrow> jsobj" where
  "getOne_meta_of (GetOne provider params) = getOne_meta params"
| "getOne_meta_of e = Map.empty"

fun getOne_metaData_of :: "event \<Rightarrow> jsobj" where
  "getOne_metaData_of (GetOne provider params) = getOne_metaData params"
| "getOne_metaData_of e = Map.empty"

text \<open>The property \<open>k\<close> of the caller's \<^verbatim>\<open>liveParams\<close>, if it has one.\<close>

definition liveParams_prop :: "UseOneProps \<Rightarrow> string \<Rightarrow> jsval option" where
  "liveParams_prop props k = (case liveParams props of None \<Rightarrow> None | Some lp \<Rightarrow> lp k)"

text \<open>
  Modelled from the spec: the "resource-default" metadata of the resolved resource, the
  registry's \<^verbatim>\<open>meta\<close> of the resource (its declaration is not among the sources); nothing
  when there is no resource or it has none.
\<close>

definition resourceDefaultMeta :: "env \<Rightarrow> UseOneProps \<Rightarrow> jsobj" where
  "resourceDefaultMeta env props =
     (case resource (useResource env (resourceFromProp props)) of
        None \<Rightarrow> Map.empty
      | Some r \<Rightarrow> (case resource_meta r of None \<Rightarrow> Map.empty | Some m \<Rightarrow> m))"

section \<open>A sample application\<close>

text \<open>
  The resources registered by \<^verbatim>\<open>examples/with-nextjs-auth/pages/_app.tsx\<close>, one data provider
  named \<^verbatim>\<open>default\<close>, no translations (the fallback text is returned), and the collaborators
  above. It serves the concrete instances below.
\<close>

definition app_resources :: "IResourceItem list" where
  "app_resources =
     [\<lparr> name = ''users'', resource_meta = None \<rparr>,
      \<lparr> name = ''posts'', resource_meta = None \<rparr>]"

definition app_useResource :: "string option \<Rightarrow> resolved" where
  "app_useResource n =
     (case n of
        None \<Rightarrow> \<lparr> resources = app_resources, resource = None, identifier = '''' \<rparr>
      | Some s \<Rightarrow>
          \<lparr> resources = app_resources,
            resource = find (\<lambda>i. name i = s) app_resources,
            identifier = s \<rparr>)"

definition app_useQuery :: "query_config \<Rightarrow> QueryObserverResult" where
  "app_useQuery cfg =
     \<lparr> data = None, error = None, status = ''loading'', isFetching = qc_enabled cfg,
       other_fields = Map.empty \<rparr>"

definition app_env :: env where
  "app_env =
     \<lparr> useResource = app_useResource,
       translate = (\<lambda>k params fallback. fallback),
       useActiveAuthProvider = None,
       useMeta = getMeta_spec,
       pickNotDeprecated = pickNotDeprecated_spec,
       pickDataProvider = (\<lambda>ident n rs. case n of None \<Rightarrow> ''default'' | Some d \<Rightarrow> d),
       queryKeys = (\<lambda>ident provider m rid. JArr [JStr provider, JStr ident, js_of_id rid]),
       useQuery = app_useQuery,
       useLoadingOvertime = (\<lambda>p. \<lparr> elapsedTime = None \<rparr>) \<rparr>"

text \<open>\<^verbatim>\<open>useOne({ resource: "posts", id: 5 })\<close>.\<close>

definition posts_5 :: UseOneProps where
  "posts_5 =
     \<lparr> resourceFromProp = Some ''posts'', id_prop = Some (KeyNum 5), queryOptions = None,
       successNotification = None, errorNotification = None, meta = None, metaData = None,
       liveMode = None, onLiveEvent = None, liveParams = None, dataProviderName = None,
       overtimeOptions = None \<rparr>"

definition only_enabled :: "bool \<Rightarrow> UseQueryOptions" where
  "only_enabled b =
     \<lparr> enabled = Some b, onSuccess = None, onError = None, other_options = Map.empty \<rparr>"

definition not_found :: HttpError where
  "not_found = \<lparr> err_message = ''Not Found'', statusCode = 404 \<rparr>"

definition unauthorized :: HttpError where
  "unauthorized = \<lparr> err_message = ''Unauthorized'', statusCode = 401 \<rparr>"

text \<open>A registry whose resource \<^verbatim>\<open>posts\<close> carries default metadata.\<close>

definition posts_with_defaults :: IResourceItem where
  "posts_with_defaults =
     \<lparr> name = ''posts'',
       resource_meta = Some [''lang'' \<mapsto> JStr ''en'', ''draft'' \<mapsto> JBool False] \<rparr>"

definition defaults_env :: env where
  "defaults_env =
     app_env \<lparr> useResource :=
       (\<lambda>n. \<lparr> resources = [posts_with_defaults], resource = Some posts_with_defaults,
               identifier = ''posts'' \<rparr>) \<rparr>"

section \<open>What one render passes to its collaborators\<close>

lemma query_enabled:
  "qc_enabled (query (useOne env props)) =
     (case queryOptions_enabled props of Some b \<Rightarrow> b | None \<Rightarrow> id_prop props \<noteq> None)"
  by (simp add: useOne_def useOne_query_def Let_def)

lemma query_queryKey:
  "qc_queryKey (query (useOne env props)) =
     queryKeys env (identifier (useResource env (resourceFromProp props)))
       (pickedDataProvider env props) (preferredMeta env props) (id_prop props)"
  by (simp add: useOne_def useOne_query_def Let_def)

lemma query_queryFn:
  "qc_queryFn (query (useOne env props)) ctx =
     [GetOne (pickedDataProvider env props)
        \<lparr> getOne_resource =
            (case resource (useResource env (resourceFromProp props)) of
               None \<Rightarrow> '''' | Some r \<Rightarrow> name r),
          getOne_id = id_prop props,
          getOne_meta = (combinedMeta env props)(''queryContext'' \<mapsto> queryContext ctx),
          getOne_metaData = (combinedMeta env props)(''queryContext'' \<mapsto> queryContext ctx) \<rparr>]"
  by (simp add: useOne_def useOne_query_def useOne_queryFn_def Let_def)

lemma query_onSuccess:
  "qc_onSuccess (query (useOne env props)) =
     useOne_onSuccess props (combinedMeta env props)
       (identifier (useResource env (resourceFromProp props)))"
  by (simp add: useOne_def useOne_query_def Let_def)

lemma query_onError:
  "qc_onError (query (useOne env props)) =
     useOne_onError (translate env) props (combinedMeta env props)
       (identifier (useResource env (resourceFromProp props)))"
  by (simp add: useOne_def useOne_query_def Let_def)

lemma subscription_params:
  "sub_params (subscription (useOne env props)) =
     [''ids'' \<mapsto> JArr (if truthy_id (id_prop props) then [js_of_id (id_prop props)] else []),
      ''id'' \<mapsto> js_of_id (id_prop props),
      ''meta'' \<mapsto> JObj (combinedMeta env props),
      ''metaData'' \<mapsto> JObj (combinedMeta env props),
      ''subscriptionType'' \<mapsto> JStr ''useOne'']
     ++ (case liveParams props of None \<Rightarrow> Map.empty | Some lp \<Rightarrow> lp)"
  by (simp add: useOne_def useOne_subscription_def Let_def)

text \<open>The engine's first step, spelt out for the query of a render.\<close>

lemma engine_on_render:
  "cache_engine (query (useOne env props)) pageParam signal =
     (if (case queryOptions_enabled props of Some b \<Rightarrow> b | None \<Rightarrow> id_prop props \<noteq> None)
      then \<lparr> engine_isFetching = True,
             engine_calls =
               qc_queryFn (query (useOne env props))
                 \<lparr> ctx_queryKey = qc_queryKey (query (useOne env props)),
                   ctx_pageParam = pageParam, ctx_signal = signal \<rparr> \<rparr>
      else \<lparr> engine_isFetching = False, engine_calls = [] \<rparr>)"
  unfolding cache_engine_def query_enabled ..

section \<open>Runs of the settle callbacks\<close>

lemma notificationConfig_cases:
  "notificationConfig call n outcome vals ident =
     (case n of
        None \<Rightarrow> ([], None)
      | Some (Static d) \<Rightarrow> ([], Some d)
      | Some (Computed f) \<Rightarrow> ([call outcome vals ident], f outcome vals ident))"
  by (simp add: notificationConfig_def split: option.split notification_prop.split)

lemma onError_run:
  "useOne_onError tr props cm ident err =
     CheckError err #
     (case queryOptions_onError props of None \<Rightarrow> [] | Some cb \<Rightarrow> [CallerOnError cb err]) @
     fst (notificationConfig ErrorNotificationCall (errorNotification props) err
            (notification_values (id_prop props) cm) ident) @
     [HandleNotification
        (snd (notificationConfig ErrorNotificationCall (errorNotification props) err
                (notification_values (id_prop props) cm) ident))
        (Some (error_fallback tr (id_prop props) ident err))]"
  by (simp add: useOne_onError_def split: prod.splits)

lemma onSuccess_run:
  "useOne_onSuccess props cm ident d =
     (case queryOptions_onSuccess props of None \<Rightarrow> [] | Some cb \<Rightarrow> [CallerOnSuccess cb d]) @
     fst (notificationConfig SuccessNotificationCall (successNotification props) d
            (notification_values (id_prop props) cm) ident) @
     [HandleNotification
        (snd (notificationConfig SuccessNotificationCall (successNotification props) d
                (notification_values (id_prop props) cm) ident))
        None]"
  by (simp add: useOne_onSuccess_def split: prod.splits)

lemma notifications_opened_append:
  "notifications_opened (xs @ ys) = notifications_opened xs @ notifications_opened ys"
  by (induction xs rule: notifications_opened.induct) simp_all

text \<open>Positions in a run that is given event by event.\<close>

lemma positions_Nil: "positions P [] = []"
  by (simp add: positions_def)

lemma positions_Cons:
  "positions P (e # es) = (if P e then [0] else []) @ map Suc (positions P es)"
proof -
  have "[0..<length (e # es)] = 0 # map Suc [0..<length es]"
    by (simp add: upt_conv_Cons map_Suc_upt del: upt_Suc)
  then show ?thesis
    by (simp add: positions_def filter_map comp_def)
qed

subsection \<open>Decimal rendering at the sample inputs\<close>

lemma js_string_of_int_5: "js_string_of_int 5 = ''5''"
  by (simp add: js_string_of_int_def js_string_of_nat.simps digit_char_def)

lemma js_string_of_int_404: "js_string_of_int 404 = ''404''"
  by (simp add: js_string_of_int_def js_string_of_nat.simps digit_char_def)

lemma js_string_of_int_401: "js_string_of_int 401 = ''401''"
  by (simp add: js_string_of_int_def js_string_of_nat.simps digit_char_def)

lemmas app_defs =
  app_env_def app_useResource_def app_resources_def app_useQuery_def posts_5_def
  only_enabled_def getMeta_spec_def pickNotDeprecated_spec_def

section \<open>The claims\<close>

text \<open>
  Claim C1, as amended. With an undefined record key: when no \<^verbatim>\<open>queryOptions.enabled\<close>
  override is given, the query is registered with \<^verbatim>\<open>enabled = false\<close>, so the engine makes
  no \<^verbatim>\<open>getOne\<close> call and \<^verbatim>\<open>isFetching\<close> does not become true; when \<^verbatim>\<open>enabled\<close> is forced
  true, the query is enabled and the engine's fetch invokes the adapter's \<^verbatim>\<open>getOne\<close> with
  the undefined id. The hook has no local precondition check.
\<close>

theorem undefined_id_fetch_gate:
  assumes "id_prop props = None"
  shows
    "(queryOptions_enabled props = None \<longrightarrow>
        \<not> qc_enabled (query (useOne env props)) \<and>
        \<not> engine_isFetching (cache_engine (query (useOne env props)) pageParam signal) \<and>
        engine_calls (cache_engine (query (useOne env props)) pageParam signal) = []) \<and>
     (queryOptions_enabled props = Some True \<longrightarrow>
        qc_enabled (query (useOne env props)) \<and>
        engine_isFetching (cache_engine (query (useOne env props)) pageParam signal) \<and>
        engine_calls (cache_engine (query (useOne env props)) pageParam signal) =
          [GetOne (pickedDataProvider env props)
             \<lparr> getOne_resource =
                 (case resource (useResource env (resourceFromProp props)) of
                    None \<Rightarrow> '''' | Some r \<Rightarrow> name r),
               getOne_id = None,
               getOne_meta =
                 (combinedMeta env props)
                   (''queryContext'' \<mapsto>
                      queryContext
                        \<lparr> ctx_queryKey = qc_queryKey (query (useOne env props)),
                          ctx_pageParam = pageParam, ctx_signal = signal \<rparr>),
               getOne_metaData =
                 (combinedMeta env props)
                   (''queryContext'' \<mapsto>
                      queryContext
                        \<lparr> ctx_queryKey = qc_queryKey (query (useOne env props)),
                          ctx_pageParam = pageParam, ctx_signal = signal \<rparr>) \<rparr>])"
proof (intro conjI impI)
  assume off: "queryOptions_enabled props = None"
  with assms show "\<not> qc_enabled (query (useOne env props))"
    by (simp add: query_enabled)
  from off assms
  show "\<not> engine_isFetching (cache_engine (query (useOne env props)) pageParam signal)"
    by (simp add: engine_on_render)
  from off assms
  show "engine_calls (cache_engine (query (useOne env props)) pageParam signal) = []"
    by (simp add: engine_on_render)
next
  assume forced: "queryOptions_enabled props = Some True"
  then show "qc_enabled (query (useOne env props))"
    by (simp add: query_enabled)
  from forced
  show "engine_isFetching (cache_engine (query (useOne env props)) pageParam signal)"
    by (simp add: engine_on_render)
  from forced assms
  show "engine_calls (cache_engine (query (useOne env props)) pageParam signal) =
          [GetOne (pickedDataProvider env props)
             \<lparr> getOne_resource =
                 (case resource (useResource env (resourceFromProp props)) of
                    None \<Rightarrow> '''' | Some r \<Rightarrow> name r),
               getOne_id = None,
               getOne_meta =
                 (combinedMeta env props)
                   (''queryContext'' \<mapsto>
                      queryContext
                        \<lparr> ctx_queryKey = qc_queryKey (query (useOne env props)),
                          ctx_pageParam = pageParam, ctx_signal = signal \<rparr>),
               getOne_metaData =
                 (combinedMeta env props)
                   (''queryContext'' \<mapsto>
                      queryContext
                        \<lparr> ctx_queryKey = qc_queryKey (query (useOne env props)),
                          ctx_pageParam = pageParam, ctx_signal = signal \<rparr>) \<rparr>]"
    by (simp add: engine_on_render query_queryFn)
qed

text \<open>
  The amended claim at \<^verbatim>\<open>useOne({ resource: "posts" })\<close>, without an override and with
  \<^verbatim>\<open>enabled: true\<close>.
\<close>

theorem undefined_id_fetch_gate_posts:
  "\<not> engine_isFetching
       (cache_engine (query (useOne app_env (posts_5\<lparr> id_prop := None \<rparr>))) JUndefined (JRef 0)) \<and>
   engine_calls
     (cache_engine (query (useOne app_env (posts_5\<lparr> id_prop := None \<rparr>))) JUndefined (JRef 0)) = [] \<and>
   engine_isFetching
     (cache_engine
        (query (useOne app_env
           (posts_5\<lparr> id_prop := None, queryOptions := Some (only_enabled True) \<rparr>)))
        JUndefined (JRef 0))"
  using
    undefined_id_fetch_gate
      [of "posts_5\<lparr> id_prop := None \<rparr>" app_env JUndefined "JRef 0"]
    undefined_id_fetch_gate
      [of "posts_5\<lparr> id_prop := None, queryOptions := Some (only_enabled True) \<rparr>" app_env
          JUndefined "JRef 0"]
  by (simp add: queryOptions_enabled_def posts_5_def only_enabled_def)

text \<open>
  Claim C1 as stated fails: with the id undefined and \<^verbatim>\<open>enabled: true\<close>, the backend call is
  not skipped. The engine's fetch is one \<^verbatim>\<open>getOne\<close> call on the default data provider for
  \<^verbatim>\<open>posts\<close>, with the id undefined.
\<close>

theorem undefined_id_forced_enabled_reaches_adapter:
  "engine_calls
     (cache_engine
        (query (useOne app_env
           (posts_5\<lparr> id_prop := None, queryOptions := Some (only_enabled True) \<rparr>)))
        JUndefined (JRef 0))
   = [GetOne ''default''
        \<lparr> getOne_resource = ''posts'',
          getOne_id = None,
          getOne_meta =
            [''queryContext'' \<mapsto>
               JObj [''queryKey'' \<mapsto> JArr [JStr ''default'', JStr ''posts'', JUndefined],
                     ''pageParam'' \<mapsto> JUndefined,
                     ''signal'' \<mapsto> JRef 0]],
          getOne_metaData =
            [''queryContext'' \<mapsto>
               JObj [''queryKey'' \<mapsto> JArr [JStr ''default'', JStr ''posts'', JUndefined],
                     ''pageParam'' \<mapsto> JUndefined,
                     ''signal'' \<mapsto> JRef 0]] \<rparr>]"
  by (simp add: engine_on_render query_queryFn query_queryKey queryContext_def
      queryOptions_enabled_def pickedDataProvider_def combinedMeta_def preferredMeta_def
      js_of_id_def app_defs)

text \<open>
  Claim C2, as amended. On an error settle for which the caller supplied no
  \<^verbatim>\<open>errorNotification\<close>, or supplied a function that yields no descriptor, the dispatcher is
  called exactly once, with no descriptor and with the default descriptor, and through the
  dispatcher exactly that one notification is opened. Its key is
  \<^verbatim>\<open>{id}-{identifier}-getOne-notification\<close>, its description the error's message, its kind
  \<^verbatim>\<open>error\<close>, and its message whatever the translator returns for \<^verbatim>\<open>notifications.error\<close> with
  the status code as parameter and the fallback text \<^verbatim>\<open>Error (status code: N)\<close>. The message
  contains the status code whenever the translator returns that fallback text.
\<close>

theorem default_error_notification:
  fixes env :: env and props :: UseOneProps and err :: HttpError
  defines "run \<equiv> qc_onError (query (useOne env props)) err"
  defines "fallback_text \<equiv> ''Error (status code: '' @ js_string_of_int (statusCode err) @ '')''"
  defines "translated \<equiv>
     translate env ''notifications.error'' [''statusCode'' \<mapsto> JNum (statusCode err)]
       fallback_text"
  defines "default_descriptor \<equiv>
     \<lparr> key = template_id (id_prop props) @ ''-'' @
             identifier (useResource env (resourceFromProp props)) @ ''-getOne-notification'',
       message = translated,
       description = err_message err,
       notification_type = ''error'' \<rparr>"
  assumes absent:
    "errorNotification props = None \<or>
     (\<exists>f. errorNotification props = Some (Computed f) \<and>
          f err (notification_values (id_prop props) (combinedMeta env props))
            (identifier (useResource env (resourceFromProp props))) = None)"
  shows
    "filter is_HandleNotification run = [HandleNotification None (Some default_descriptor)] \<and>
     notifications_opened run = [default_descriptor] \<and>
     (translated = fallback_text \<longrightarrow>
        map message (notifications_opened run) = [fallback_text] \<and>
        list_all (\<lambda>n. sublist (js_string_of_int (statusCode err)) (message n))
          (notifications_opened run))"
proof -
  let ?vals = "notification_values (id_prop props) (combinedMeta env props)"
  let ?ident = "identifier (useResource env (resourceFromProp props))"
  let ?cfg = "notificationConfig ErrorNotificationCall (errorNotification props) err ?vals ?ident"
  have fb: "error_fallback (translate env) (id_prop props) ?ident err = default_descriptor"
    by (simp add: error_fallback_def default_descriptor_def translated_def fallback_text_def)
  from absent have none: "snd ?cfg = None"
    by (auto simp: notificationConfig_cases)
  from absent have calls: "fst ?cfg = [] \<or> fst ?cfg = [ErrorNotificationCall err ?vals ?ident]"
    by (auto simp: notificationConfig_cases)
  have run: "run =
      CheckError err #
      (case queryOptions_onError props of None \<Rightarrow> [] | Some cb \<Rightarrow> [CallerOnError cb err]) @
      fst ?cfg @ [HandleNotification None (Some default_descriptor)]"
    unfolding run_def query_onError onError_run none fb ..
  from calls have "filter is_HandleNotification (fst ?cfg) = []"
    by auto
  then have one: "filter is_HandleNotification run =
      [HandleNotification None (Some default_descriptor)]"
    by (simp add: run split: option.split)
  from calls have "notifications_opened (fst ?cfg) = []"
    by auto
  then have opened: "notifications_opened run = [default_descriptor]"
    by (simp add: run notifications_opened_append handleNotification_spec_def
        split: option.split)
  have contained: "sublist (js_string_of_int (statusCode err)) fallback_text"
    unfolding fallback_text_def by (rule sublist_appendI)
  have "map message (notifications_opened run) = [fallback_text] \<and>
        list_all (\<lambda>n. sublist (js_string_of_int (statusCode err)) (message n))
          (notifications_opened run)"
    if "translated = fallback_text"
    using that contained by (simp add: opened default_descriptor_def)
  with one opened show ?thesis by blast
qed

text \<open>
  The claim's example: resource \<^verbatim>\<open>posts\<close>, id 5, and the error
  \<^verbatim>\<open>{statusCode: 404, message: "Not Found"}\<close>, where nothing is translated: the message
  opened contains \<^verbatim>\<open>404\<close>.
\<close>

theorem default_error_notification_posts_404:
  "notifications_opened (qc_onError (query (useOne app_env posts_5)) not_found) =
     [\<lparr> key = ''5-posts-getOne-notification'',
        message = ''Error (status code: 404)'',
        description = ''Not Found'',
        notification_type = ''error'' \<rparr>] \<and>
   list_all (\<lambda>n. sublist ''404'' (message n))
     (notifications_opened (qc_onError (query (useOne app_env posts_5)) not_found))"
proof -
  have untranslated:
    "translate app_env ''notifications.error'' [''statusCode'' \<mapsto> JNum (statusCode not_found)]
       (''Error (status code: '' @ js_string_of_int (statusCode not_found) @ '')'') =
     ''Error (status code: '' @ js_string_of_int (statusCode not_found) @ '')''"
    by (simp add: app_env_def)
  have no_descriptor: "errorNotification posts_5 = None"
    by (simp add: posts_5_def)
  note settled =
    default_error_notification
      [where env = app_env and props = posts_5 and err = not_found, OF disjI1 [OF no_descriptor]]
  note opened = settled [THEN conjunct2, THEN conjunct1]
  note contains = settled [THEN conjunct2, THEN conjunct2, THEN mp, OF untranslated, THEN conjunct2]
  from opened
  have "notifications_opened (qc_onError (query (useOne app_env posts_5)) not_found) =
     [\<lparr> key = ''5-posts-getOne-notification'',
        message = ''Error (status code: 404)'',
        description = ''Not Found'',
        notification_type = ''error'' \<rparr>]"
    by (simp add: posts_5_def app_env_def app_useResource_def not_found_def template_id_def
        js_string_of_int_5 js_string_of_int_404)
  moreover from contains
  have "list_all (\<lambda>n. sublist ''404'' (message n))
     (notifications_opened (qc_onError (query (useOne app_env posts_5)) not_found))"
    by (simp add: not_found_def js_string_of_int_404)
  ultimately show ?thesis ..
qed

text \<open>
  Claim C2 as stated fails: the message is the translator's to choose. With a translation
  of \<^verbatim>\<open>notifications.error\<close> that does not interpolate the status code, the one notification
  opened for \<^verbatim>\<open>posts\<close>, id 5 and the 404 error has a message without \<^verbatim>\<open>404\<close>.
\<close>

theorem translated_message_omits_status_code:
  "notifications_opened
     (qc_onError
        (query (useOne (app_env\<lparr> translate := (\<lambda>k params fallback. ''Something went wrong'') \<rparr>)
           posts_5))
        not_found) =
     [\<lparr> key = ''5-posts-getOne-notification'',
        message = ''Something went wrong'',
        description = ''Not Found'',
        notification_type = ''error'' \<rparr>] \<and>
   \<not> sublist ''404'' ''Something went wrong''"
proof -
  have "\<not> sublist ''404'' ''Something went wrong''"
    by (simp add: sublist_Cons_right)
  moreover have "notifications_opened
     (qc_onError
        (query (useOne (app_env\<lparr> translate := (\<lambda>k params fallback. ''Something went wrong'') \<rparr>)
           posts_5))
        not_found) =
     [\<lparr> key = ''5-posts-getOne-notification'',
        message = ''Something went wrong'',
        description = ''Not Found'',
        notification_type = ''error'' \<rparr>]"
    by (simp add: query_onError onError_run notificationConfig_cases queryOptions_onError_def
        error_fallback_def template_id_def handleNotification_spec_def not_found_def
        js_string_of_int_5 posts_5_def app_env_def app_useResource_def)
  ultimately show ?thesis by simp
qed

text \<open>
  Claim C3. Every error settle is one pass in this order: the auth-escalation classifier
  \<^verbatim>\<open>checkError\<close> is called on the error first; then the caller's \<^verbatim>\<open>queryOptions.onError\<close>, when
  there is one; then the error notification is computed (calling the caller's function,
  when \<^verbatim>\<open>errorNotification\<close> is one) and handed to the dispatcher last. Each step occurs once.
\<close>

theorem error_path_order:
  fixes env :: env and props :: UseOneProps and err :: HttpError
  defines "run \<equiv> qc_onError (query (useOne env props)) err"
  defines "vals \<equiv> notification_values (id_prop props) (combinedMeta env props)"
  defines "ident \<equiv> identifier (useResource env (resourceFromProp props))"
  defines "fallback \<equiv> Some (error_fallback (translate env) (id_prop props) ident err)"
  shows
    "run ! 0 = CheckError err \<and>
     positions is_CheckError run = [0] \<and>
     (case queryOptions_onError props of
        None \<Rightarrow> positions is_CallerOnError run = []
      | Some cb \<Rightarrow> positions is_CallerOnError run = [1] \<and> run ! 1 = CallerOnError cb err) \<and>
     (case errorNotification props of
        None \<Rightarrow>
          positions is_ErrorNotificationCall run = [] \<and>
          last run = HandleNotification None fallback
      | Some (Static d) \<Rightarrow>
          positions is_ErrorNotificationCall run = [] \<and>
          last run = HandleNotification (Some d) fallback
      | Some (Computed f) \<Rightarrow>
          positions is_ErrorNotificationCall run = [length run - 2] \<and>
          run ! (length run - 2) = ErrorNotificationCall err vals ident \<and>
          last run = HandleNotification (f err vals ident) fallback) \<and>
     positions is_HandleNotification run = [length run - 1] \<and>
     positions is_GetOne run = [] \<and>
     length run =
       2 + (case queryOptions_onError props of None \<Rightarrow> 0 | Some cb \<Rightarrow> 1)
         + (case errorNotification props of Some (Computed f) \<Rightarrow> 1 | _ \<Rightarrow> 0)"
proof (cases "queryOptions_onError props")
  case None
  show ?thesis
  proof (cases "errorNotification props")
    case no_prop: None
    with None show ?thesis
      by (simp add: run_def fallback_def ident_def vals_def query_onError onError_run
          notificationConfig_cases positions_Cons positions_Nil)
  next
    case (Some n)
    with None show ?thesis
      by (cases n)
         (simp_all add: run_def fallback_def ident_def vals_def query_onError onError_run
            notificationConfig_cases positions_Cons positions_Nil)
  qed
next
  case caller: (Some cb)
  show ?thesis
  proof (cases "errorNotification props")
    case None
    with caller show ?thesis
      by (simp add: run_def fallback_def ident_def vals_def query_onError onError_run
          notificationConfig_cases positions_Cons positions_Nil)
  next
    case (Some n)
    with caller show ?thesis
      by (cases n)
         (simp_all add: run_def fallback_def ident_def vals_def query_onError onError_run
            notificationConfig_cases positions_Cons positions_Nil)
  qed
qed

text \<open>
  A 401 error with a caller's \<^verbatim>\<open>onError\<close>: the auth-escalation call, the caller's callback
  and the dispatch of the error notification, in that order and once each.
\<close>

theorem error_path_order_401:
  "qc_onError
     (query (useOne app_env
        (posts_5\<lparr> queryOptions :=
           Some \<lparr> enabled = None, onSuccess = None, onError = Some (Callback 1),
                  other_options = Map.empty \<rparr> \<rparr>)))
     unauthorized
   = [CheckError unauthorized,
      CallerOnError (Callback 1) unauthorized,
      HandleNotification None
        (Some \<lparr> key = ''5-posts-getOne-notification'',
                message = ''Error (status code: 401)'',
                description = ''Unauthorized'',
                notification_type = ''error'' \<rparr>)]"
  using error_path_order
    [where env = app_env and err = unauthorized and props =
        "posts_5\<lparr> queryOptions :=
           Some \<lparr> enabled = None, onSuccess = None, onError = Some (Callback 1),
                  other_options = Map.empty \<rparr> \<rparr>"]
  by (simp add: query_onError onError_run notificationConfig_cases queryOptions_onError_def
      error_fallback_def template_id_def unauthorized_def js_string_of_int_5
      js_string_of_int_401 posts_5_def app_env_def app_useResource_def)
text \<open>
  Claim C4. With the metadata helpers as the specification describes them, the
  \<^verbatim>\<open>combinedMeta\<close> of a render is merged with the precedence explicit \<open>>\<close> legacy \<open>>\<close>
  resource-default: property by property it is the explicit \<^verbatim>\<open>meta\<close> when that is given,
  the deprecated \<^verbatim>\<open>metaData\<close> only when \<^verbatim>\<open>meta\<close> is absent, and the resource's default metadata
  wherever the chosen one defines nothing. That value is what the backend adapter receives
  under \<^verbatim>\<open>meta\<close> (next to the added \<^verbatim>\<open>queryContext\<close>) and what the subscription registers
  under \<^verbatim>\<open>meta\<close>, unless the caller's \<^verbatim>\<open>liveParams\<close> sets that property itself.
\<close>

theorem combinedMeta_precedence:
  assumes "pickNotDeprecated env = pickNotDeprecated_spec"
    and "useMeta env = getMeta_spec"
  shows
    "combinedMeta env props k =
       (case (case meta props of Some explicit \<Rightarrow> Some explicit | None \<Rightarrow> metaData props) of
          Some chosen \<Rightarrow>
            (case chosen k of Some v \<Rightarrow> Some v | None \<Rightarrow> resourceDefaultMeta env props k)
        | None \<Rightarrow> resourceDefaultMeta env props k) \<and>
     map getOne_meta_of (qc_queryFn (query (useOne env props)) ctx) =
       [(combinedMeta env props)(''queryContext'' \<mapsto> queryContext ctx)] \<and>
     (liveParams_prop props ''meta'' = None \<longrightarrow>
        sub_params (subscription (useOne env props)) ''meta'' =
          Some (JObj (combinedMeta env props)))"
proof -
  have merged: "combinedMeta env props =
      resourceDefaultMeta env props ++
      (case pickNotDeprecated_spec (meta props) (metaData props) of
         None \<Rightarrow> Map.empty | Some m \<Rightarrow> m)"
    using assms
    by (simp add: combinedMeta_def preferredMeta_def getMeta_spec_def resourceDefaultMeta_def)
  have "combinedMeta env props k =
       (case (case meta props of Some explicit \<Rightarrow> Some explicit | None \<Rightarrow> metaData props) of
          Some chosen \<Rightarrow>
            (case chosen k of Some v \<Rightarrow> Some v | None \<Rightarrow> resourceDefaultMeta env props k)
        | None \<Rightarrow> resourceDefaultMeta env props k)"
    unfolding merged pickNotDeprecated_spec_def
    by (simp add: map_add_def split: option.split)
  moreover have "map getOne_meta_of (qc_queryFn (query (useOne env props)) ctx) =
       [(combinedMeta env props)(''queryContext'' \<mapsto> queryContext ctx)]"
    by (simp add: query_queryFn)
  moreover have "liveParams_prop props ''meta'' = None \<longrightarrow>
      sub_params (subscription (useOne env props)) ''meta'' =
        Some (JObj (combinedMeta env props))"
    by (simp add: subscription_params liveParams_prop_def map_add_def split: option.split)
  ultimately show ?thesis
    by blast
qed

text \<open>
  A resource with default metadata \<^verbatim>\<open>{lang: "en", draft: false}\<close>, explicit
  \<^verbatim>\<open>meta = {draft: true}\<close> and deprecated \<^verbatim>\<open>metaData = {legacy: 1}\<close>: the explicit value of
  \<^verbatim>\<open>draft\<close> wins, the default fills \<^verbatim>\<open>lang\<close>, and the deprecated field is not consulted.
\<close>

theorem combinedMeta_precedence_posts:
  "combinedMeta defaults_env
     (posts_5\<lparr> meta := Some [''draft'' \<mapsto> JBool True],
               metaData := Some [''legacy'' \<mapsto> JNum 1] \<rparr>) ''draft'' = Some (JBool True) \<and>
   combinedMeta defaults_env
     (posts_5\<lparr> meta := Some [''draft'' \<mapsto> JBool True],
               metaData := Some [''legacy'' \<mapsto> JNum 1] \<rparr>) ''lang'' = Some (JStr ''en'') \<and>
   combinedMeta defaults_env
     (posts_5\<lparr> meta := Some [''draft'' \<mapsto> JBool True],
               metaData := Some [''legacy'' \<mapsto> JNum 1] \<rparr>) ''legacy'' = None \<and>
   combinedMeta defaults_env
     (posts_5\<lparr> metaData := Some [''legacy'' \<mapsto> JNum 1] \<rparr>) ''legacy'' = Some (JNum 1)"
  using
    combinedMeta_precedence
      [where env = defaults_env and k = "''draft''" and props =
         "posts_5\<lparr> meta := Some [''draft'' \<mapsto> JBool True],
                   metaData := Some [''legacy'' \<mapsto> JNum 1] \<rparr>"]
    combinedMeta_precedence
      [where env = defaults_env and k = "''lang''" and props =
         "posts_5\<lparr> meta := Some [''draft'' \<mapsto> JBool True],
                   metaData := Some [''legacy'' \<mapsto> JNum 1] \<rparr>"]
    combinedMeta_precedence
      [where env = defaults_env and k = "''legacy''" and props =
         "posts_5\<lparr> meta := Some [''draft'' \<mapsto> JBool True],
                   metaData := Some [''legacy'' \<mapsto> JNum 1] \<rparr>"]
    combinedMeta_precedence
      [where env = defaults_env and k = "''legacy''" and props =
         "posts_5\<lparr> metaData := Some [''legacy'' \<mapsto> JNum 1] \<rparr>"]
  by (simp add: defaults_env_def app_env_def posts_5_def resourceDefaultMeta_def
      posts_with_defaults_def liveParams_prop_def)
text \<open>
  Claim C5, as amended. When the resolver yields no resource, the fetch is not gated by
  the resource: the query is enabled exactly when the \<^verbatim>\<open>enabled\<close> override says so or, without
  an override, when the id is defined, and the fetch the engine then runs is one \<^verbatim>\<open>getOne\<close>
  call with the placeholder resource name \<^verbatim>\<open>""\<close>. Only the live subscription is off by
  default for a missing resource.
\<close>

theorem missing_resource_fetch_gate:
  assumes "resource (useResource env (resourceFromProp props)) = None"
  shows
    "qc_enabled (query (useOne env props)) =
       (case queryOptions_enabled props of Some b \<Rightarrow> b | None \<Rightarrow> id_prop props \<noteq> None) \<and>
     engine_calls (cache_engine (query (useOne env props)) pageParam signal) =
       (if qc_enabled (query (useOne env props))
        then [GetOne (pickedDataProvider env props)
                \<lparr> getOne_resource = '''',
                  getOne_id = id_prop props,
                  getOne_meta =
                    (combinedMeta env props)
                      (''queryContext'' \<mapsto>
                         queryContext
                           \<lparr> ctx_queryKey = qc_queryKey (query (useOne env props)),
                             ctx_pageParam = pageParam, ctx_signal = signal \<rparr>),
                  getOne_metaData =
                    (combinedMeta env props)
                      (''queryContext'' \<mapsto>
                         queryContext
                           \<lparr> ctx_queryKey = qc_queryKey (query (useOne env props)),
                             ctx_pageParam = pageParam, ctx_signal = signal \<rparr>) \<rparr>]
        else []) \<and>
     sub_enabled (subscription (useOne env props)) =
       (case queryOptions_enabled props of Some b \<Rightarrow> b | None \<Rightarrow> False)"
proof (intro conjI)
  show "qc_enabled (query (useOne env props)) =
       (case queryOptions_enabled props of Some b \<Rightarrow> b | None \<Rightarrow> id_prop props \<noteq> None)"
    by (rule query_enabled)
  from assms
  show "sub_enabled (subscription (useOne env props)) =
       (case queryOptions_enabled props of Some b \<Rightarrow> b | None \<Rightarrow> False)"
    by (simp add: useOne_def useOne_subscription_def Let_def split: option.split)
  from assms
  show "engine_calls (cache_engine (query (useOne env props)) pageParam signal) =
       (if qc_enabled (query (useOne env props))
        then [GetOne (pickedDataProvider env props)
                \<lparr> getOne_resource = '''',
                  getOne_id = id_prop props,
                  getOne_meta =
                    (combinedMeta env props)
                      (''queryContext'' \<mapsto>
                         queryContext
                           \<lparr> ctx_queryKey = qc_queryKey (query (useOne env props)),
                             ctx_pageParam = pageParam, ctx_signal = signal \<rparr>),
                  getOne_metaData =
                    (combinedMeta env props)
                      (''queryContext'' \<mapsto>
                         queryContext
                           \<lparr> ctx_queryKey = qc_queryKey (query (useOne env props)),
                             ctx_pageParam = pageParam, ctx_signal = signal \<rparr>) \<rparr>]
        else [])"
    by (simp add: cache_engine_def query_queryFn)
qed

text \<open>
  \<^verbatim>\<open>useOne({ id: 5 })\<close> where no resource is resolved: the query is enabled, the
  subscription is not.
\<close>

theorem missing_resource_fetch_gate_sample:
  "qc_enabled (query (useOne app_env (posts_5\<lparr> resourceFromProp := None \<rparr>))) \<and>
   \<not> sub_enabled (subscription (useOne app_env (posts_5\<lparr> resourceFromProp := None \<rparr>)))"
  using missing_resource_fetch_gate
    [where env = app_env and props = "posts_5\<lparr> resourceFromProp := None \<rparr>"
       and pageParam = JUndefined and signal = "JRef 0"]
  by (simp add: app_env_def app_useResource_def posts_5_def queryOptions_enabled_def)

text \<open>
  Claim C5 as stated fails: with no resource resolved and id 5, the backend call is made,
  with the empty string as resource name.
\<close>

theorem missing_resource_placeholder_call:
  "engine_calls
     (cache_engine (query (useOne app_env (posts_5\<lparr> resourceFromProp := None \<rparr>)))
        JUndefined (JRef 0))
   = [GetOne ''default''
        \<lparr> getOne_resource = '''',
          getOne_id = Some (KeyNum 5),
          getOne_meta =
            [''queryContext'' \<mapsto>
               JObj [''queryKey'' \<mapsto> JArr [JStr ''default'', JStr '''', JNum 5],
                     ''pageParam'' \<mapsto> JUndefined,
                     ''signal'' \<mapsto> JRef 0]],
          getOne_metaData =
            [''queryContext'' \<mapsto>
               JObj [''queryKey'' \<mapsto> JArr [JStr ''default'', JStr '''', JNum 5],
                     ''pageParam'' \<mapsto> JUndefined,
                     ''signal'' \<mapsto> JRef 0]] \<rparr>]"
  by (simp add: engine_on_render query_queryFn query_queryKey queryContext_def
      queryOptions_enabled_def pickedDataProvider_def combinedMeta_def preferredMeta_def
      js_of_id_def app_defs)

text \<open>
  Claim C6. The \<^verbatim>\<open>enabled\<close> flag of the live-subscription registration is the
  \<^verbatim>\<open>queryOptions.enabled\<close> override when one is defined, and otherwise the conjunction of
  "the resource name is defined" and "the record key is defined".
\<close>

theorem subscription_enabled_flag:
  "sub_enabled (subscription (useOne env props)) =
     (case queryOptions_enabled props of
        Some override \<Rightarrow> override
      | None \<Rightarrow>
          resource (useResource env (resourceFromProp props)) \<noteq> None \<and> id_prop props \<noteq> None)"
  unfolding useOne_def useOne_subscription_def Let_def
  by simp

text \<open>
  For \<^verbatim>\<open>posts\<close> and id 5 the subscription is on; an override \<^verbatim>\<open>enabled: false\<close> turns it off;
  without an id it is off, and an override \<^verbatim>\<open>enabled: true\<close> turns it on.
\<close>

theorem subscription_enabled_flag_posts:
  "sub_enabled (subscription (useOne app_env posts_5)) \<and>
   \<not> sub_enabled
       (subscription (useOne app_env (posts_5\<lparr> queryOptions := Some (only_enabled False) \<rparr>))) \<and>
   \<not> sub_enabled (subscription (useOne app_env (posts_5\<lparr> id_prop := None \<rparr>))) \<and>
   sub_enabled
     (subscription
        (useOne app_env (posts_5\<lparr> id_prop := None, queryOptions := Some (only_enabled True) \<rparr>)))"
  using
    subscription_enabled_flag [of app_env posts_5]
    subscription_enabled_flag [of app_env "posts_5\<lparr> queryOptions := Some (only_enabled False) \<rparr>"]
    subscription_enabled_flag [of app_env "posts_5\<lparr> id_prop := None \<rparr>"]
    subscription_enabled_flag
      [of app_env "posts_5\<lparr> id_prop := None, queryOptions := Some (only_enabled True) \<rparr>"]
  by (simp add: queryOptions_enabled_def app_defs)



text \<open>
  Claim C8, as amended. In the backend adapter call, \<^verbatim>\<open>meta\<close> and \<^verbatim>\<open>metaData\<close> are always the
  same value: \<^verbatim>\<open>combinedMeta\<close> extended with the \<^verbatim>\<open>queryContext\<close> bundle of \<^verbatim>\<open>queryKey\<close>,
  \<^verbatim>\<open>pageParam\<close> and \<^verbatim>\<open>signal\<close>. In the live-subscription params, \<^verbatim>\<open>meta\<close> and \<^verbatim>\<open>metaData\<close>
  are both \<^verbatim>\<open>combinedMeta\<close> whenever the caller's \<^verbatim>\<open>liveParams\<close> defines neither property;
  \<^verbatim>\<open>liveParams\<close> is spread last and replaces the properties it defines.
\<close>

theorem meta_and_metaData_agree:
  fixes env :: env and props :: UseOneProps and ctx :: query_context
  defines "forwarded \<equiv>
     (combinedMeta env props)
       (''queryContext'' \<mapsto>
          JObj [''queryKey'' \<mapsto> ctx_queryKey ctx,
                ''pageParam'' \<mapsto> ctx_pageParam ctx,
                ''signal'' \<mapsto> ctx_signal ctx])"
  shows
    "list_all is_GetOne (qc_queryFn (query (useOne env props)) ctx) \<and>
     map getOne_meta_of (qc_queryFn (query (useOne env props)) ctx) = [forwarded] \<and>
     map getOne_metaData_of (qc_queryFn (query (useOne env props)) ctx) = [forwarded] \<and>
     (liveParams_prop props ''meta'' = None \<and> liveParams_prop props ''metaData'' = None \<longrightarrow>
        sub_params (subscription (useOne env props)) ''meta'' =
          Some (JObj (combinedMeta env props)) \<and>
        sub_params (subscription (useOne env props)) ''metaData'' =
          Some (JObj (combinedMeta env props))) \<and>
     (\<forall>k. sub_params (subscription (useOne env props)) k =
        (case liveParams_prop props k of
           Some v \<Rightarrow> Some v
         | None \<Rightarrow>
             [''ids'' \<mapsto>
                JArr (if truthy_id (id_prop props) then [js_of_id (id_prop props)] else []),
              ''id'' \<mapsto> js_of_id (id_prop props),
              ''meta'' \<mapsto> JObj (combinedMeta env props),
              ''metaData'' \<mapsto> JObj (combinedMeta env props),
              ''subscriptionType'' \<mapsto> JStr ''useOne''] k))"
proof -
  have adapter:
    "list_all is_GetOne (qc_queryFn (query (useOne env props)) ctx)"
    "map getOne_meta_of (qc_queryFn (query (useOne env props)) ctx) = [forwarded]"
    "map getOne_metaData_of (qc_queryFn (query (useOne env props)) ctx) = [forwarded]"
    by (simp_all add: query_queryFn forwarded_def queryContext_def)
  have spread: "sub_params (subscription (useOne env props)) k =
        (case liveParams_prop props k of
           Some v \<Rightarrow> Some v
         | None \<Rightarrow>
             [''ids'' \<mapsto>
                JArr (if truthy_id (id_prop props) then [js_of_id (id_prop props)] else []),
              ''id'' \<mapsto> js_of_id (id_prop props),
              ''meta'' \<mapsto> JObj (combinedMeta env props),
              ''metaData'' \<mapsto> JObj (combinedMeta env props),
              ''subscriptionType'' \<mapsto> JStr ''useOne''] k)" for k
    unfolding subscription_params liveParams_prop_def map_add_def
    by (cases "liveParams props") (simp_all split: option.split)
  have "sub_params (subscription (useOne env props)) ''meta'' =
          Some (JObj (combinedMeta env props))"
    if "liveParams_prop props ''meta'' = None"
    using that by (simp add: spread)
  moreover have "sub_params (subscription (useOne env props)) ''metaData'' =
          Some (JObj (combinedMeta env props))"
    if "liveParams_prop props ''metaData'' = None"
    using that by (simp add: spread)
  ultimately show ?thesis
    using adapter spread by blast
qed

text \<open>
  For \<^verbatim>\<open>posts\<close>/5 with \<^verbatim>\<open>liveParams = {tenant: "a"}\<close> both subscription fields are the (empty)
  combined metadata, and the caller's property is registered next to them.
\<close>

theorem meta_and_metaData_agree_posts:
  "sub_params
     (subscription (useOne app_env (posts_5\<lparr> liveParams := Some [''tenant'' \<mapsto> JStr ''a''] \<rparr>)))
     ''meta'' = Some (JObj Map.empty) \<and>
   sub_params
     (subscription (useOne app_env (posts_5\<lparr> liveParams := Some [''tenant'' \<mapsto> JStr ''a''] \<rparr>)))
     ''metaData'' = Some (JObj Map.empty) \<and>
   sub_params
     (subscription (useOne app_env (posts_5\<lparr> liveParams := Some [''tenant'' \<mapsto> JStr ''a''] \<rparr>)))
     ''tenant'' = Some (JStr ''a'')"
  using meta_and_metaData_agree
    [where env = app_env
       and props = "posts_5\<lparr> liveParams := Some [''tenant'' \<mapsto> JStr ''a''] \<rparr>"]
  by (simp add: liveParams_prop_def combinedMeta_def preferredMeta_def app_defs)

text \<open>
  Claim C8 as stated fails in the subscription registration: with
  \<^verbatim>\<open>liveParams = {meta: null}\<close> the registered \<^verbatim>\<open>meta\<close> is \<^verbatim>\<open>null\<close> while \<^verbatim>\<open>metaData\<close> is the
  combined metadata.
\<close>

theorem liveParams_override_splits_meta:
  "sub_params
     (subscription (useOne app_env (posts_5\<lparr> liveParams := Some [''meta'' \<mapsto> JNull] \<rparr>)))
     ''meta'' = Some JNull \<and>
   sub_params
     (subscription (useOne app_env (posts_5\<lparr> liveParams := Some [''meta'' \<mapsto> JNull] \<rparr>)))
     ''metaData'' = Some (JObj Map.empty) \<and>
   sub_params
     (subscription (useOne app_env (posts_5\<lparr> liveParams := Some [''meta'' \<mapsto> JNull] \<rparr>)))
     ''meta'' \<noteq>
   sub_params
     (subscription (useOne app_env (posts_5\<lparr> liveParams := Some [''meta'' \<mapsto> JNull] \<rparr>)))
     ''metaData''"
  by (simp add: subscription_params combinedMeta_def preferredMeta_def app_defs)
text \<open>
  Claim C9. The value \<^verbatim>\<open>useOne\<close> returns has every field of the query result unchanged and,
  beyond them, only \<^verbatim>\<open>overtime.elapsedTime\<close>, the watchdog's answer. Of the query result the
  watchdog is given the \<^verbatim>\<open>isFetching\<close> flag alone, and whatever the watchdog does, the query the
  hook registers and the query fields it returns (\<^verbatim>\<open>data\<close>, \<^verbatim>\<open>error\<close>, \<^verbatim>\<open>status\<close> among them)
  are the same.
\<close>

theorem returned_frames_query_result:
  fixes env :: env and props :: UseOneProps
    and w :: "overtime_props \<Rightarrow> UseLoadingOvertimeReturnType"
  defines "queryResponse \<equiv> useQuery env (query (useOne env props))"
  shows
    "returned (useOne env props) =
       \<lparr> data = data queryResponse, error = error queryResponse,
         status = status queryResponse, isFetching = isFetching queryResponse,
         other_fields = other_fields queryResponse,
         overtime =
           \<lparr> elapsedTime = elapsedTime (useLoadingOvertime env (watchdog (useOne env props))) \<rparr> \<rparr> \<and>
     QueryObserverResult.truncate (returned (useOne env props)) = queryResponse \<and>
     watchdog (useOne env props) =
       \<lparr> isLoading = isFetching queryResponse,
         ov_interval = (case overtimeOptions props of None \<Rightarrow> None | Some ov \<Rightarrow> interval ov),
         ov_onInterval =
           (case overtimeOptions props of None \<Rightarrow> None | Some ov \<Rightarrow> onInterval ov) \<rparr> \<and>
     query (useOne (env\<lparr> useLoadingOvertime := w \<rparr>) props) = query (useOne env props) \<and>
     QueryObserverResult.truncate (returned (useOne (env\<lparr> useLoadingOvertime := w \<rparr>) props)) =
       queryResponse"
proof -
  have same_query: "useOne_query (env\<lparr> useLoadingOvertime := w \<rparr>) props = useOne_query env props"
    by (simp add: useOne_query_def combinedMeta_def preferredMeta_def pickedDataProvider_def)
  have q: "query (useOne e props) = useOne_query e props" for e
    by (simp add: useOne_def Let_def)
  have kept: "QueryObserverResult.truncate (returned (useOne e props)) =
      useQuery e (useOne_query e props)" for e
    by (simp add: useOne_def Let_def QueryObserverResult.defs UseOneResult.defs)
  have spread: "returned (useOne env props) =
       \<lparr> data = data queryResponse, error = error queryResponse,
         status = status queryResponse, isFetching = isFetching queryResponse,
         other_fields = other_fields queryResponse,
         overtime =
           \<lparr> elapsedTime = elapsedTime (useLoadingOvertime env (watchdog (useOne env props))) \<rparr> \<rparr>"
    by (simp add: useOne_def Let_def queryResponse_def QueryObserverResult.defs
        UseOneResult.defs)
  have unchanged: "QueryObserverResult.truncate (returned (useOne env props)) = queryResponse"
    unfolding kept queryResponse_def q ..
  have driven: "watchdog (useOne env props) =
       \<lparr> isLoading = isFetching queryResponse,
         ov_interval = (case overtimeOptions props of None \<Rightarrow> None | Some ov \<Rightarrow> interval ov),
         ov_onInterval =
           (case overtimeOptions props of None \<Rightarrow> None | Some ov \<Rightarrow> onInterval ov) \<rparr>"
    by (simp add: useOne_def Let_def useOne_overtime_def queryResponse_def)
  have same: "query (useOne (env\<lparr> useLoadingOvertime := w \<rparr>) props) = query (useOne env props)"
    unfolding q by (rule same_query)
  have framed: "QueryObserverResult.truncate
        (returned (useOne (env\<lparr> useLoadingOvertime := w \<rparr>) props)) = queryResponse"
    unfolding kept same_query queryResponse_def q by simp
  from spread unchanged driven same framed show ?thesis
    by (intro conjI)
qed

text \<open>
  For \<^verbatim>\<open>posts\<close>/5, with a watchdog that reports 5000 ms: the query fields are those of the
  query result, and \<^verbatim>\<open>overtime.elapsedTime\<close> is the watchdog's answer.
\<close>

theorem returned_frames_query_result_posts:
  "data (returned (useOne (app_env\<lparr> useLoadingOvertime := (\<lambda>p. \<lparr> elapsedTime = Some 5000 \<rparr>) \<rparr>)
      posts_5)) = None \<and>
   status (returned (useOne (app_env\<lparr> useLoadingOvertime := (\<lambda>p. \<lparr> elapsedTime = Some 5000 \<rparr>) \<rparr>)
      posts_5)) = ''loading'' \<and>
   isFetching (returned (useOne (app_env\<lparr> useLoadingOvertime := (\<lambda>p. \<lparr> elapsedTime = Some 5000 \<rparr>) \<rparr>)
      posts_5)) \<and>
   overtime (returned (useOne (app_env\<lparr> useLoadingOvertime := (\<lambda>p. \<lparr> elapsedTime = Some 5000 \<rparr>) \<rparr>)
      posts_5)) = \<lparr> elapsedTime = Some 5000 \<rparr>"
  using returned_frames_query_result
    [where env = "app_env\<lparr> useLoadingOvertime := (\<lambda>p. \<lparr> elapsedTime = Some 5000 \<rparr>) \<rparr>"
       and props = posts_5]
  by (simp add: query_enabled queryOptions_enabled_def app_defs)

text \<open>
  Claim C10. On a success settle for which the caller supplied no \<^verbatim>\<open>successNotification\<close>, or
  supplied a function that yields no descriptor, the dispatcher is called once, with no
  descriptor and without a fallback descriptor; no notification is opened.
\<close>

theorem no_default_success_notification:
  fixes env :: env and props :: UseOneProps and d :: jsval
  defines "run \<equiv> qc_onSuccess (query (useOne env props)) d"
  assumes absent:
    "successNotification props = None \<or>
     (\<exists>f. successNotification props = Some (Computed f) \<and>
          f d (notification_values (id_prop props) (combinedMeta env props))
            (identifier (useResource env (resourceFromProp props))) = None)"
  shows
    "filter is_HandleNotification run = [HandleNotification None None] \<and>
     notifications_opened run = []"
proof -
  let ?vals = "notification_values (id_prop props) (combinedMeta env props)"
  let ?ident = "identifier (useResource env (resourceFromProp props))"
  let ?called =
    "case queryOptions_onSuccess props of None \<Rightarrow> [] | Some cb \<Rightarrow> [CallerOnSuccess cb d]"
  from absent consider
      (none) "successNotification props = None"
    | (computed) f where "successNotification props = Some (Computed f)"
        and "f d ?vals ?ident = None"
    by auto
  then have "run = ?called @ [HandleNotification None None] \<or>
      run = ?called @ [SuccessNotificationCall d ?vals ?ident, HandleNotification None None]"
  proof cases
    case none
    then show ?thesis
      by (simp add: run_def query_onSuccess onSuccess_run notificationConfig_cases)
  next
    case computed
    then show ?thesis
      by (simp add: run_def query_onSuccess onSuccess_run notificationConfig_cases)
  qed
  moreover have "filter is_HandleNotification ?called = []"
    and "notifications_opened ?called = []"
    by (simp_all split: option.split)
  ultimately show ?thesis
    by (auto simp: notifications_opened_append handleNotification_spec_def)
qed

text \<open>
  A success settle of the plain \<^verbatim>\<open>useOne({ resource: "posts", id: 5 })\<close>: one dispatcher call
  without descriptor and without fallback, and nothing opened.
\<close>

theorem no_default_success_notification_posts:
  "qc_onSuccess (query (useOne app_env posts_5))
     (JObj [''data'' \<mapsto> JObj [''id'' \<mapsto> JNum 5, ''title'' \<mapsto> JStr ''Hello'']])
   = [HandleNotification None None] \<and>
   notifications_opened
     (qc_onSuccess (query (useOne app_env posts_5))
        (JObj [''data'' \<mapsto> JObj [''id'' \<mapsto> JNum 5, ''title'' \<mapsto> JStr ''Hello'']])) = []"
  using no_default_success_notification
    [where env = app_env and props = posts_5
       and d = "JObj [''data'' \<mapsto> JObj [''id'' \<mapsto> JNum 5, ''title'' \<mapsto> JStr ''Hello'']]"]
  by (simp add: query_onSuccess onSuccess_run notificationConfig_cases
      queryOptions_onSuccess_def posts_5_def)

end
